theory Spec2Isabelle
  imports Main
begin

section \<open>Values, errors and the interpreter state\<close>

text \<open>
  The module \<^verbatim>\<open>sync/projectutil.py\<close> is Python 2 code (it builds bound methods with the
  three-argument \<^verbatim>\<open>types.MethodType\<close>). Its objects are mutable and shared, so the
  embedding keeps an explicit store: every instance lives at an address, every class made
  by \<^verbatim>\<open>create_mock\<close> has an identifier, and each operation takes the state and returns
  the new one together with its result (\<open>Inl\<close> an exception, \<open>Inr\<close> a value).
\<close>

type_synonym ref = nat

datatype pyclass = CommandC | MachC | WPTC | MozPhabC | MockC nat

text \<open>
  A value held in an instance \<^verbatim>\<open>__dict__\<close>, passed as an option or returned by a call.
  \<open>Method i self name\<close> is the bound method that \<^verbatim>\<open>__getattr__\<close> builds: \<open>i\<close> is the
  identity of the object, \<open>self\<close> the instance it is bound to and \<open>name\<close> the variable
  its closure captured.
\<close>

datatype pyval = Str string | LoggerObj | Method nat ref string

type_synonym kwargs = "(string \<times> pyval) list"

datatype pyerror =
    AssertionError
  | CalledProcessError int "string list" string
  | OSError
  | IndexError
  | AttributeError
  | TypeError
  | RuntimeError
  | Raised string

type_synonym result = "pyerror + pyval"

text \<open>What the program does to its collaborators, in the order it does it.\<close>

datatype event =
    LogInfo string
  | Spawn "string list" string kwargs
  | RecordException pyval int string
  | PathExists string
  | RmTree string

record log_entry =
  entry_command :: pyval
  entry_cwd :: pyval
  entry_args :: "string list"
  entry_kwargs :: kwargs
  entry_rv :: pyval

text \<open>
  A scripted response of a mock: a text, or a function of the remaining positional
  arguments and the options, which may raise.
\<close>

datatype scripted = Literal string | Callable "string list \<Rightarrow> kwargs \<Rightarrow> result"

record mock_class =
  tool :: string
  mock_data :: "string \<rightharpoonup> scripted"
  mock_log :: "log_entry list"

record pyobject =
  cls :: pyclass
  dict :: "string \<rightharpoonup> pyval"

text \<open>
  What a path of the file system holds. \<open>Dir\<close> is a directory that can be removed with all
  it contains, \<open>LockedDir\<close> one that the process may not remove, \<open>Symlink\<close> a link to
  something that exists.
\<close>

datatype node = Dir | LockedDir | File | Symlink

type_synonym files = "string \<rightharpoonup> node"

record world =
  objs :: "ref \<Rightarrow> pyobject"
  classes :: "nat \<Rightarrow> mock_class"
  next_id :: nat
  next_class :: nat
  fs :: files
  trace :: "event list"

text \<open>
  The operating system's side of \<^verbatim>\<open>subprocess.check_output\<close>: from the state, the
  argument vector, the working directory and the options, a process outcome and the file
  system it leaves.
\<close>

datatype proc_outcome = Exited int string | Failed pyerror

type_synonym os = "world \<Rightarrow> string list \<Rightarrow> string \<Rightarrow> kwargs \<Rightarrow> proc_outcome \<times> files"

section \<open>Strings and paths\<close>

definition startswith :: "string \<Rightarrow> string \<Rightarrow> bool" where
  "startswith s p = (take (length p) s = p)"

definition endswith :: "string \<Rightarrow> string \<Rightarrow> bool" where
  "endswith s p = (length p \<le> length s \<and> drop (length s - length p) s = p)"

text \<open>\<^verbatim>\<open>s.replace(old, new)\<close> for one-character \<open>old\<close> and \<open>new\<close>.\<close>

definition replace :: "string \<Rightarrow> char \<Rightarrow> char \<Rightarrow> string" where
  "replace s old new = map (\<lambda>c. if c = old then new else c) s"

text \<open>\<^verbatim>\<open>" ".join(xs)\<close>\<close>

fun join_spaces :: "string list \<Rightarrow> string" where
  "join_spaces [] = []"
| "join_spaces [x] = x"
| "join_spaces (x # y # ys) = x @ '' '' @ join_spaces (y # ys)"

text \<open>\<^verbatim>\<open>posixpath.join(a, b)\<close> on strings.\<close>

definition path_join :: "string \<Rightarrow> string \<Rightarrow> string" where
  "path_join a b =
     (if startswith b ''/'' then b
      else if a = [] \<or> endswith a ''/'' then a @ b
      else a @ ''/'' @ b)"

text \<open>
  \<^verbatim>\<open>os.path.join(self.path, self.name)\<close> on whatever the two attributes hold: the
  library calls \<^verbatim>\<open>b.startswith\<close> first and \<^verbatim>\<open>path.endswith\<close> only when \<open>b\<close> is
  relative; a value without these methods raises \<^verbatim>\<open>AttributeError\<close>.
\<close>

fun join_attrs :: "pyval \<Rightarrow> pyval \<Rightarrow> pyerror + string" where
  "join_attrs (Str a) (Str b) = Inr (path_join a b)"
| "join_attrs _ (Str b) = (if startswith b ''/'' then Inr b else Inl AttributeError)"
| "join_attrs _ _ = Inl AttributeError"

section \<open>Attribute lookup\<close>

text \<open>
  Names that every instance resolves on its type before \<^verbatim>\<open>__dict__\<close> is consulted
  (data descriptors), and the names each class defines or inherits.
\<close>

definition data_descriptors :: "string list" where
  "data_descriptors = [''__class__'', ''__dict__'', ''__weakref__'']"

definition object_attrs :: "string list" where
  "object_attrs =
     [''__delattr__'', ''__doc__'', ''__format__'', ''__getattribute__'', ''__hash__'',
      ''__init__'', ''__module__'', ''__new__'', ''__reduce__'', ''__reduce_ex__'',
      ''__repr__'', ''__setattr__'', ''__sizeof__'', ''__str__'', ''__subclasshook__'']"

fun class_attrs :: "pyclass \<Rightarrow> string list" where
  "class_attrs MozPhabC = [''find_url'', ''get'', ''__getattr__''] @ object_attrs"
| "class_attrs (MockC c) =
     [''_data'', ''_log'', ''set_data'', ''get_log'', ''get'', ''__getattr__''] @ object_attrs"
| "class_attrs _ = [''get'', ''__getattr__''] @ object_attrs"

datatype lookup = Found pyval | OnClass

text \<open>
  \<^verbatim>\<open>Command.__getattr__\<close>:
  \<^verbatim>\<open>
    def __getattr__(self, name):
        if name.endswith("_"):
            name = name[:-1]
        def call(self, *args, **kwargs):
            return self.get(name.replace("_", "-"), *args, **kwargs)
        call.__name__ = name
        self.__dict__[name] = types.MethodType(call, self, self.__class__)
        return self.__dict__[name]
  \<close>
  The bound method is a new object each time.
\<close>

definition Command_getattr :: "world \<Rightarrow> ref \<Rightarrow> string \<Rightarrow> pyval \<times> world" where
  "Command_getattr w self name0 =
     (let name = (if endswith name0 ''_'' then butlast name0 else name0);
          m = Method (next_id w) self name;
          ob = objs w self
      in (m, w\<lparr>objs := (objs w)(self := ob\<lparr>dict := (dict ob)(name \<mapsto> m)\<rparr>),
                next_id := Suc (next_id w)\<rparr>))"

text \<open>
  The expression \<^verbatim>\<open>self.k\<close>: the type's data descriptors, then the instance
  \<^verbatim>\<open>__dict__\<close>, then the class, and \<^verbatim>\<open>__getattr__\<close> only when all of these fail.
\<close>

definition py_getattr :: "world \<Rightarrow> ref \<Rightarrow> string \<Rightarrow> lookup \<times> world" where
  "py_getattr w self k =
     (if k \<in> set data_descriptors then (OnClass, w)
      else case dict (objs w self) k of
             Some v \<Rightarrow> (Found v, w)
           | None \<Rightarrow>
               if k \<in> set (class_attrs (cls (objs w self))) then (OnClass, w)
               else (let (m, w') = Command_getattr w self k in (Found m, w')))"

text \<open>
  The same read for a name that is no data descriptor and that no class defines
  (\<^verbatim>\<open>name\<close>, \<^verbatim>\<open>path\<close>, \<^verbatim>\<open>wpt_cache\<close>): the instance \<^verbatim>\<open>__dict__\<close>, then
  \<^verbatim>\<open>__getattr__\<close>.
\<close>

definition read_attr :: "world \<Rightarrow> ref \<Rightarrow> string \<Rightarrow> pyval \<times> world" where
  "read_attr w self k =
     (case dict (objs w self) k of
        Some v \<Rightarrow> (v, w)
      | None \<Rightarrow> Command_getattr w self k)"

section \<open>Command\<close>

text \<open>A new, empty instance of class \<open>c\<close>, and \<^verbatim>\<open>self.k = v\<close>.\<close>

definition new_object :: "world \<Rightarrow> pyclass \<Rightarrow> ref \<times> world" where
  "new_object w c =
     (next_id w,
      w\<lparr>objs := (objs w)(next_id w := \<lparr>cls = c, dict = Map.empty\<rparr>),
        next_id := Suc (next_id w)\<rparr>)"

definition set_attr :: "world \<Rightarrow> ref \<Rightarrow> string \<Rightarrow> pyval \<Rightarrow> world" where
  "set_attr w self k v =
     w\<lparr>objs := (objs w)(self := (objs w self)\<lparr>dict := (dict (objs w self))(k \<mapsto> v)\<rparr>)\<rparr>"

text \<open>
  \<^verbatim>\<open>Command.__init__\<close>:
  \<^verbatim>\<open>
    def __init__(self, name, path):
        self.name = name
        self.path = path
        self.logger = logger
  \<close>
\<close>

definition Command_init :: "world \<Rightarrow> ref \<Rightarrow> string \<Rightarrow> string \<Rightarrow> world" where
  "Command_init w self name path =
     set_attr (set_attr (set_attr w self ''name'' (Str name)) self ''path'' (Str path))
       self ''logger'' LoggerObj"

definition Command_new :: "world \<Rightarrow> string \<Rightarrow> string \<Rightarrow> ref \<times> world" where
  "Command_new w name path =
     (let (self, w1) = new_object w CommandC in (self, Command_init w1 self name path))"

text \<open>\<^verbatim>\<open>logger.info(msg)\<close>, and the message \<^verbatim>\<open>"Running command:\n %s" % " ".join(command)\<close>.\<close>

definition log_info :: "world \<Rightarrow> string \<Rightarrow> world" where
  "log_info w msg = w\<lparr>trace := trace w @ [LogInfo msg]\<rparr>"

definition running_message :: "string list \<Rightarrow> string" where
  "running_message command = ''Running command:'' @ [CHR 0x0A] @ '' '' @ join_spaces command"

text \<open>
  \<^verbatim>\<open>subprocess.check_output(command, cwd=cwd, **opts)\<close>: the output on exit code 0,
  \<^verbatim>\<open>CalledProcessError(returncode, cmd, output)\<close> on any other exit code, and whatever
  else the library raises (the executable is missing, an option is refused).
\<close>

definition check_output :: "os \<Rightarrow> world \<Rightarrow> string list \<Rightarrow> string \<Rightarrow> kwargs \<Rightarrow> (pyerror + string) \<times> world" where
  "check_output sys w command cwd opts =
     (let w1 = w\<lparr>trace := trace w @ [Spawn command cwd opts]\<rparr> in
      case sys w command cwd opts of
        (Exited code out, fs') \<Rightarrow>
          (if code = 0 then Inr out else Inl (CalledProcessError code command out),
           w1\<lparr>fs := fs'\<rparr>)
      | (Failed e, fs') \<Rightarrow> (Inl e, w1\<lparr>fs := fs'\<rparr>))"

text \<open>
  The handler of \<^verbatim>\<open>Command.get\<close>: only \<^verbatim>\<open>CalledProcessError\<close> is caught, mirrored to
  \<^verbatim>\<open>newrelic.agent.record_exception\<close> and raised again; any other exception passes.
\<close>

fun report :: "world \<Rightarrow> ref \<Rightarrow> pyerror \<Rightarrow> result \<times> world" where
  "report w self (CalledProcessError code cmd out) =
     (let (n, w1) = read_attr w self ''name'' in
      (Inl (CalledProcessError code cmd out),
       w1\<lparr>trace := trace w1 @ [RecordException n code out]\<rparr>))"
| "report w self e = (Inl e, w)"

text \<open>
  \<^verbatim>\<open>Command.get\<close>:
  \<^verbatim>\<open>
    def get(self, *subcommand, **opts):
        assert subcommand and len(subcommand)
        command = [os.path.join(self.path, self.name)] + list(subcommand)
        logger.info("Running command:\n %s" % " ".join(command))
        try:
            return subprocess.check_output(command, cwd=self.path, **opts)
        except subprocess.CalledProcessError as e:
            newrelic.agent.record_exception(params={
                "command": self.name,
                "exit_code": e.returncode,
                "command_output": e.output})
            raise e
  \<close>
  A working directory that is not a string is refused by the process primitive with
  \<^verbatim>\<open>TypeError\<close>.
\<close>

definition Command_get :: "os \<Rightarrow> world \<Rightarrow> ref \<Rightarrow> string list \<Rightarrow> kwargs \<Rightarrow> result \<times> world" where
  "Command_get sys w self subcommand opts =
     (if subcommand = [] then (Inl AssertionError, w)
      else
        let (p, w1) = read_attr w self ''path'';
            (n, w2) = read_attr w1 self ''name''
        in case join_attrs p n of
             Inl e \<Rightarrow> (Inl e, w2)
           | Inr exe \<Rightarrow>
               (let command = exe # subcommand;
                    w3 = log_info w2 (running_message command);
                    (cwd, w4) = read_attr w3 self ''path''
                in case cwd of
                     Str d \<Rightarrow>
                       (case check_output sys w4 command d opts of
                          (Inr out, w5) \<Rightarrow> (Inr (Str out), w5)
                        | (Inl e, w5) \<Rightarrow> report w5 self e)
                   | _ \<Rightarrow> (Inl TypeError, w4)))"

section \<open>Mach, WPT and MozPhab\<close>

text \<open>
  \<^verbatim>\<open>
    def __init__(self, path):
        self.wpt_cache = os.path.join(os.path.expanduser("~"),
                                      ".mozbuild", "cache", "wpt")
        Command.__init__(self, "mach", path)
  \<close>
  \<open>home\<close> is what \<^verbatim>\<open>os.path.expanduser("~")\<close> returns.
\<close>

definition Mach_init :: "world \<Rightarrow> ref \<Rightarrow> string \<Rightarrow> string \<Rightarrow> world" where
  "Mach_init w self home path =
     Command_init
       (set_attr w self ''wpt_cache''
          (Str (path_join (path_join (path_join home ''.mozbuild'') ''cache'') ''wpt'')))
       self ''mach'' path"

definition Mach_new :: "world \<Rightarrow> string \<Rightarrow> string \<Rightarrow> ref \<times> world" where
  "Mach_new w home path =
     (let (self, w1) = new_object w MachC in (self, Mach_init w1 self home path))"

definition WPT_new :: "world \<Rightarrow> string \<Rightarrow> ref \<times> world" where
  "WPT_new w path =
     (let (self, w1) = new_object w WPTC in (self, Command_init w1 self ''wpt'' path))"

definition MozPhab_new :: "world \<Rightarrow> string \<Rightarrow> ref \<times> world" where
  "MozPhab_new w path =
     (let (self, w1) = new_object w MozPhabC in (self, Command_init w1 self ''moz-phab'' path))"

text \<open>
  \<^verbatim>\<open>shutil.rmtree(p)\<close> with its default arguments. On a directory, \<open>p\<close> and everything
  below it goes. On a symbolic link, on a file (\<^verbatim>\<open>os.listdir\<close> fails), on a directory
  that may not be removed and on a path that does not exist, the library raises
  \<^verbatim>\<open>OSError\<close>; what an interrupted removal has already deleted is not modelled, the files
  are left as they were.
\<close>

definition remove_tree :: "string \<Rightarrow> files \<Rightarrow> files" where
  "remove_tree p fls = (\<lambda>q. if q = p \<or> startswith q (p @ ''/'') then None else fls q)"

definition rmtree :: "string \<Rightarrow> files \<Rightarrow> pyerror + files" where
  "rmtree p fls =
     (case fls p of
        Some Dir \<Rightarrow> Inr (remove_tree p fls)
      | _ \<Rightarrow> Inl OSError)"

text \<open>
  The \<^verbatim>\<open>finally\<close> block of \<^verbatim>\<open>Mach.get\<close>, given the outcome \<open>rv\<close> of the \<^verbatim>\<open>try\<close> block:
  \<^verbatim>\<open>
        finally:
            if os.path.exists(self.wpt_cache):
                shutil.rmtree(self.wpt_cache)
        return rv
  \<close>
  \<^verbatim>\<open>os.path.exists\<close> is true of whatever the path holds, a directory or not. Both library
  functions raise \<^verbatim>\<open>TypeError\<close> on a value that is not a string. Nothing in the block
  catches an exception, so one raised there, by \<^verbatim>\<open>shutil.rmtree\<close> too, replaces the
  outcome of the \<^verbatim>\<open>try\<close> block, value or exception.
\<close>

definition cleanup :: "world \<Rightarrow> ref \<Rightarrow> result \<Rightarrow> result \<times> world" where
  "cleanup w self rv =
     (let (c, w1) = read_attr w self ''wpt_cache'' in
      case c of
        Str p \<Rightarrow>
          (let w2 = w1\<lparr>trace := trace w1 @ [PathExists p]\<rparr> in
           if fs w2 p \<noteq> None then
             (let (c', w3) = read_attr w2 self ''wpt_cache'' in
              case c' of
                Str p' \<Rightarrow>
                  (case rmtree p' (fs w3) of
                     Inr fls \<Rightarrow> (rv, w3\<lparr>trace := trace w3 @ [RmTree p'], fs := fls\<rparr>)
                   | Inl e \<Rightarrow> (Inl e, w3\<lparr>trace := trace w3 @ [RmTree p']\<rparr>))
              | _ \<Rightarrow> (Inl TypeError, w3))
           else (rv, w2))
      | _ \<Rightarrow> (Inl TypeError, w1))"

text \<open>
  \<^verbatim>\<open>Mach.get\<close>:
  \<^verbatim>\<open>
    def get(self, *subcommand, **opts):
        try:
            rv = super(Mach, self).get(*subcommand, **opts)
        finally:
            ...
        return rv
  \<close>
\<close>

definition Mach_get :: "os \<Rightarrow> world \<Rightarrow> ref \<Rightarrow> string list \<Rightarrow> kwargs \<Rightarrow> result \<times> world" where
  "Mach_get sys w self subcommand opts =
     (let (rv, w1) = Command_get sys w self subcommand opts in cleanup w1 self rv)"

subsection \<open>The review URL\<close>

text \<open>
  The pattern \<^verbatim>\<open>https://phabricator.services.mozilla.com/D\d+\<close> as the regular
  expression it is: its three dots match any character but a newline, \<^verbatim>\<open>\d+\<close> takes as
  many decimal digits as there are, and at least one.
\<close>

datatype atom = Lit char | Dot

fun atom_matches :: "atom \<Rightarrow> char \<Rightarrow> bool" where
  "atom_matches (Lit x) c = (c = x)"
| "atom_matches Dot c = (c \<noteq> CHR 0x0A)"

definition phab_re :: "atom list" where
  "phab_re =
     map Lit ''https://phabricator'' @ [Dot] @ map Lit ''services'' @ [Dot] @
     map Lit ''mozilla'' @ [Dot] @ map Lit ''com/D''"

definition is_digit :: "char \<Rightarrow> bool" where
  "is_digit c = (c \<in> set ''0123456789'')"

text \<open>Consuming the atoms from the front of a text: what is left, if they all match.\<close>

fun match_atoms :: "atom list \<Rightarrow> string \<Rightarrow> string option" where
  "match_atoms [] s = Some s"
| "match_atoms (a # as) [] = None"
| "match_atoms (a # as) (c # s) = (if atom_matches a c then match_atoms as s else None)"

text \<open>The text the pattern matches at the very start of \<open>s\<close>, if it matches there.\<close>

definition match_here :: "string \<Rightarrow> string option" where
  "match_here s =
     (case match_atoms phab_re s of
        None \<Rightarrow> None
      | Some rest \<Rightarrow>
          (let ds = takeWhile is_digit rest in
           if ds = [] then None else Some (take (length phab_re + length ds) s)))"

lemma match_atoms_drop:
  "match_atoms as s = Some rest \<Longrightarrow> length as \<le> length s \<and> drop (length as) s = rest"
  by (induction as s rule: match_atoms.induct) (auto split: if_splits)

lemma match_here_length:
  assumes "match_here s = Some m"
  shows "length phab_re < length m \<and> length m \<le> length s \<and> m = take (length m) s"
proof -
  from assms obtain rest where r: "match_atoms phab_re s = Some rest"
    and ds: "takeWhile is_digit rest \<noteq> []"
    and m: "m = take (length phab_re + length (takeWhile is_digit rest)) s"
    by (auto simp: match_here_def Let_def split: option.splits if_splits)
  from match_atoms_drop [OF r] have len: "length phab_re \<le> length s"
    and d: "drop (length phab_re) s = rest"
    by simp_all
  have "length (takeWhile is_digit rest) \<le> length rest"
    by (rule length_takeWhile_le)
  with d len have "length phab_re + length (takeWhile is_digit rest) \<le> length s"
    by (metis add_diff_cancel_left' le_add_diff_inverse length_drop nat_add_left_cancel_le)
  with m ds show ?thesis by simp
qed

lemma match_here_nonempty: "match_here s = Some m \<Longrightarrow> m \<noteq> [] \<and> s \<noteq> []"
  using match_here_length [of s m] by auto

text \<open>
  \<^verbatim>\<open>phab_re.findall(data)\<close>: the text is scanned from the left; a match is recorded and
  the scan resumes right after it, so matches never overlap.
\<close>

function findall :: "string \<Rightarrow> string list" where
  "findall s =
     (case match_here s of
        Some m \<Rightarrow> m # findall (drop (length m) s)
      | None \<Rightarrow> (case s of [] \<Rightarrow> [] | c # t \<Rightarrow> findall t))"
  by pat_completeness auto
termination
  by (relation "measure length") (auto dest: match_here_nonempty)

declare findall.simps [simp del]

text \<open>
  \<^verbatim>\<open>MozPhab.find_url\<close>:
  \<^verbatim>\<open>
    def find_url(self, data):
        phab_re = re.compile(r"https://phabricator.services.mozilla.com/D\d+")
        matches = phab_re.findall(data)
        if matches:
            return matches[-1]
  \<close>
\<close>

definition find_url :: "string \<Rightarrow> string option" where
  "find_url data = (let matches = findall data in if matches \<noteq> [] then Some (last matches) else None)"

section \<open>The mock factory\<close>

text \<open>
  \<^verbatim>\<open>create_mock(name)\<close> executes a class statement: each call makes a new class with
  its own \<^verbatim>\<open>_data = {}\<close> and \<^verbatim>\<open>_log = []\<close>, closed over \<open>name\<close>.
\<close>

definition create_mock :: "world \<Rightarrow> string \<Rightarrow> nat \<times> world" where
  "create_mock w name =
     (next_class w,
      w\<lparr>classes := (classes w)(next_class w := \<lparr>tool = name, mock_data = Map.empty, mock_log = []\<rparr>),
        next_class := Suc (next_class w)\<rparr>)"

text \<open>
  \<^verbatim>\<open>
        def __init__(self, path):
            self.name = name
            self.path = path
  \<close>
\<close>

definition MockCommand_init :: "nat \<Rightarrow> world \<Rightarrow> ref \<Rightarrow> string \<Rightarrow> world" where
  "MockCommand_init c w self path =
     set_attr (set_attr w self ''name'' (Str (tool (classes w c)))) self ''path'' (Str path)"

definition MockCommand_new :: "nat \<Rightarrow> world \<Rightarrow> string \<Rightarrow> ref \<times> world" where
  "MockCommand_new c w path =
     (let (self, w1) = new_object w (MockC c) in (self, MockCommand_init c w1 self path))"

text \<open>
  \<^verbatim>\<open>
        @classmethod
        def set_data(cls, command, value):
            cls._data[command] = value

        @classmethod
        def get_log(cls):
            return cls._log
  \<close>
\<close>

definition set_data :: "nat \<Rightarrow> world \<Rightarrow> string \<Rightarrow> scripted \<Rightarrow> world" where
  "set_data c w command v =
     w\<lparr>classes := (classes w)(c := (classes w c)\<lparr>mock_data := (mock_data (classes w c))(command \<mapsto> v)\<rparr>)\<rparr>"

definition get_log :: "nat \<Rightarrow> world \<Rightarrow> log_entry list" where
  "get_log c w = mock_log (classes w c)"

text \<open>
  \<^verbatim>\<open>data = self._data.get(args[0], ""); if callable(data): data = data(*args[1:], **kwargs)\<close>
  once \<^verbatim>\<open>args[0]\<close> is known.
\<close>

fun scripted_value :: "scripted option \<Rightarrow> string list \<Rightarrow> kwargs \<Rightarrow> result" where
  "scripted_value None rest kwargs = Inr (Str [])"
| "scripted_value (Some (Literal s)) rest kwargs = Inr (Str s)"
| "scripted_value (Some (Callable f)) rest kwargs = f rest kwargs"

text \<open>
  \<^verbatim>\<open>MockCommand.get\<close>:
  \<^verbatim>\<open>
        def get(self, *args, **kwargs):
            data = self._data.get(args[0], "")
            if callable(data):
                data = data(*args[1:], **kwargs)

            self._log.append({"command": self.name,
                              "cwd": self.path,
                              "args": args,
                              "kwargs": kwargs,
                              "rv": data})

            return data
  \<close>
  \<^verbatim>\<open>self._data\<close> and \<^verbatim>\<open>self._log\<close> are attribute reads like any other: an entry of the
  instance \<^verbatim>\<open>__dict__\<close> under that name hides the class attribute, and none of the values an
  entry can hold has a \<^verbatim>\<open>get\<close> or an \<^verbatim>\<open>append\<close>. The method belongs to a class made
  by \<^verbatim>\<open>create_mock\<close>; Python 2 refuses to call it on an instance of another class.
\<close>

definition MockCommand_get :: "world \<Rightarrow> ref \<Rightarrow> string list \<Rightarrow> kwargs \<Rightarrow> result \<times> world" where
  "MockCommand_get w self args kwargs =
     (case cls (objs w self) of
        MockC c \<Rightarrow>
          (case py_getattr w self ''_data'' of
             (Found v, w1) \<Rightarrow> (Inl AttributeError, w1)
           | (OnClass, w1) \<Rightarrow>
               (case args of
                  [] \<Rightarrow> (Inl IndexError, w1)
                | a # rest \<Rightarrow>
                    (case scripted_value (mock_data (classes w1 c) a) rest kwargs of
                       Inl e \<Rightarrow> (Inl e, w1)
                     | Inr data \<Rightarrow>
                         (case py_getattr w1 self ''_log'' of
                            (Found v, w2) \<Rightarrow> (Inl AttributeError, w2)
                          | (OnClass, w2) \<Rightarrow>
                              (let (n, w3) = read_attr w2 self ''name'';
                                   (p, w4) = read_attr w3 self ''path'';
                                   entry = \<lparr>entry_command = n, entry_cwd = p, entry_args = args,
                                            entry_kwargs = kwargs, entry_rv = data\<rparr>
                               in (Inr data,
                                   w4\<lparr>classes := (classes w4)(c := (classes w4 c)
                                        \<lparr>mock_log := mock_log (classes w4 c) @ [entry]\<rparr>)\<rparr>))))))
      | _ \<Rightarrow> (Inl TypeError, w))"

section \<open>Calls through the instance\<close>

text \<open>
  \<open>self_get\<close> is the expression \<^verbatim>\<open>self.get(*args, **kwargs)\<close>: the attribute \<^verbatim>\<open>get\<close> is
  looked up on the instance first, so a bound method stored under that name is what gets
  called, and otherwise the \<^verbatim>\<open>get\<close> of the instance's class. \<open>call\<close> is the body of the
  closure that \<^verbatim>\<open>__getattr__\<close> builds,
  \<^verbatim>\<open>return self.get(name.replace("_", "-"), *args, **kwargs)\<close>.
  The two can call each other without end; the first argument bounds the nesting, as the
  interpreter's recursion limit does, and \<^verbatim>\<open>RuntimeError\<close> is raised when it is used up.
\<close>

fun self_get :: "nat \<Rightarrow> os \<Rightarrow> world \<Rightarrow> ref \<Rightarrow> string list \<Rightarrow> kwargs \<Rightarrow> result \<times> world"
  and call :: "nat \<Rightarrow> os \<Rightarrow> world \<Rightarrow> ref \<Rightarrow> string \<Rightarrow> string list \<Rightarrow> kwargs \<Rightarrow> result \<times> world" where
  "self_get 0 sys w self args kwargs = (Inl RuntimeError, w)"
| "self_get (Suc d) sys w self args kwargs =
     (case py_getattr w self ''get'' of
        (Found (Method i s name), w1) \<Rightarrow> call d sys w1 s name args kwargs
      | (Found _, w1) \<Rightarrow> (Inl TypeError, w1)
      | (OnClass, w1) \<Rightarrow>
          (case cls (objs w1 self) of
             MachC \<Rightarrow> Mach_get sys w1 self args kwargs
           | MockC c \<Rightarrow> MockCommand_get w1 self args kwargs
           | _ \<Rightarrow> Command_get sys w1 self args kwargs))"
| "call d sys w self name args kwargs =
     self_get d sys w self (replace name CHR ''_'' CHR ''-'' # args) kwargs"

text \<open>Calling a value: only bound methods are callable.\<close>

fun invoke :: "nat \<Rightarrow> os \<Rightarrow> world \<Rightarrow> pyval \<Rightarrow> string list \<Rightarrow> kwargs \<Rightarrow> result \<times> world" where
  "invoke d sys w (Method i self name) args kwargs = call d sys w self name args kwargs"
| "invoke d sys w v args kwargs = (Inl TypeError, w)"

section \<open>An initial state and what is observed\<close>

text \<open>The state before anything is constructed: no class, no file, nothing recorded.\<close>

definition world0 :: world where
  "world0 = \<lparr>objs = (\<lambda>_. \<lparr>cls = CommandC, dict = Map.empty\<rparr>),
             classes = (\<lambda>_. \<lparr>tool = [], mock_data = Map.empty, mock_log = []\<rparr>),
             next_id = 0, next_class = 0, fs = Map.empty, trace = []\<rparr>"

text \<open>The records that reached the telemetry sink, oldest first.\<close>

fun is_telemetry :: "event \<Rightarrow> bool" where
  "is_telemetry (RecordException n code out) = True"
| "is_telemetry _ = False"

definition telemetry :: "world \<Rightarrow> event list" where
  "telemetry w = filter is_telemetry (trace w)"

text \<open>A tool that always exits with code 2, and one that always succeeds.\<close>

definition failing_sys :: os where
  "failing_sys w command cwd opts = (Exited 2 ''fatal: not a repository'', fs w)"

definition passing_sys :: os where
  "passing_sys w command cwd opts = (Exited 0 ''ok'', fs w)"

text \<open>
  The subcommand token as the specification words it: one trailing underscore is stripped
  if there is one, and every underscore that remains becomes a hyphen.
\<close>

definition subcommand_token :: "string \<Rightarrow> string" where
  "subcommand_token X =
     map (\<lambda>c. if c = CHR ''_'' then CHR ''-'' else c)
       (if X \<noteq> [] \<and> last X = CHR ''_'' then butlast X else X)"

text \<open>
  A name is already defined on an instance when the ordinary lookup finds it: on the type
  as a data descriptor, in the instance \<^verbatim>\<open>__dict__\<close>, or on the class.
\<close>

definition defined_attr :: "world \<Rightarrow> ref \<Rightarrow> string \<Rightarrow> bool" where
  "defined_attr w self X =
     (X \<in> set data_descriptors \<or> dict (objs w self) X \<noteq> None \<or>
      X \<in> set (class_attrs (cls (objs w self))))"

text \<open>A build that fails with exit code 1 and leaves the cache directory behind.\<close>

definition mach_sys :: os where
  "mach_sys w command cwd opts =
     (Exited 1 ''build failed'', (fs w)(''/home/u/.mozbuild/cache/wpt'' \<mapsto> Dir))"

text \<open>
  Two builds that leave a cache directory which may not be removed: one succeeds, one
  fails with exit code 1.
\<close>

definition stuck_sys :: os where
  "stuck_sys w command cwd opts =
     (Exited 0 ''ok'', (fs w)(''/home/u/.mozbuild/cache/wpt'' \<mapsto> LockedDir))"

definition stuck_failing_sys :: os where
  "stuck_failing_sys w command cwd opts =
     (Exited 1 ''build failed'', (fs w)(''/home/u/.mozbuild/cache/wpt'' \<mapsto> LockedDir))"

text \<open>
  A mock instance as its constructor leaves it: an instance of the class \<open>c\<close> whose
  \<^verbatim>\<open>__dict__\<close> holds \<^verbatim>\<open>name\<close> and \<^verbatim>\<open>path\<close> and does not hide the class attributes
  \<^verbatim>\<open>_data\<close> and \<^verbatim>\<open>_log\<close>.
\<close>

definition wf_mock :: "world \<Rightarrow> ref \<Rightarrow> nat \<Rightarrow> pyval \<Rightarrow> pyval \<Rightarrow> bool" where
  "wf_mock w self c n p =
     (cls (objs w self) = MockC c \<and>
      dict (objs w self) ''_data'' = None \<and> dict (objs w self) ''_log'' = None \<and>
      dict (objs w self) ''name'' = Some n \<and> dict (objs w self) ''path'' = Some p)"

text \<open>The state after one entry is appended to the log of class \<open>c\<close>.\<close>

definition log_append :: "world \<Rightarrow> nat \<Rightarrow> log_entry \<Rightarrow> world" where
  "log_append w c e =
     w\<lparr>classes := (classes w)(c := (classes w c)\<lparr>mock_log := mock_log (classes w c) @ [e]\<rparr>)\<rparr>"

text \<open>The scripted callable \<^verbatim>\<open>lambda arg: arg.upper()\<close>, on ASCII letters.\<close>

definition upper :: "string \<Rightarrow> string" where
  "upper s =
     map (\<lambda>c. case map_of (zip ''abcdefghijklmnopqrstuvwxyz'' ''ABCDEFGHIJKLMNOPQRSTUVWXYZ'') c of
                Some u \<Rightarrow> u
              | None \<Rightarrow> c) s"

fun upper_arg :: "string list \<Rightarrow> kwargs \<Rightarrow> result" where
  "upper_arg [arg] [] = Inr (Str (upper arg))"
| "upper_arg _ _ = Inl TypeError"

section \<open>Properties\<close>

text \<open>
  C8. \<^verbatim>\<open>Command.get\<close> called with no positional argument raises \<^verbatim>\<open>AssertionError\<close>
  and leaves the whole state as it was: no process is spawned, nothing is logged and
  nothing reaches the telemetry sink.
\<close>

theorem Command_get_no_args:
  "Command_get sys w self [] opts = (Inl AssertionError, w)"
  by (simp add: Command_get_def)


subsection \<open>Reading attributes\<close>

lemma read_attr_py_getattr:
  assumes "k \<notin> set data_descriptors" and "k \<notin> set (class_attrs (cls (objs w self)))"
  shows "py_getattr w self k = (case read_attr w self k of (v, w') \<Rightarrow> (Found v, w'))"
  using assms by (simp add: py_getattr_def read_attr_def split: option.splits prod.splits)

lemma read_attr_found:
  "dict (objs w self) k = Some v \<Longrightarrow> read_attr w self k = (v, w)"
  by (simp add: read_attr_def)

lemma not_descr [simp]:
  "''name'' \<notin> set data_descriptors" "''path'' \<notin> set data_descriptors"
  "''wpt_cache'' \<notin> set data_descriptors" "''get'' \<notin> set data_descriptors"
  "''_data'' \<notin> set data_descriptors" "''_log'' \<notin> set data_descriptors"
  by (simp_all add: data_descriptors_def)

lemma log_info_simps [simp]:
  "objs (log_info w m) = objs w" "fs (log_info w m) = fs w" "classes (log_info w m) = classes w"
  "next_id (log_info w m) = next_id w" "trace (log_info w m) = trace w @ [LogInfo m]"
  by (simp_all add: log_info_def)

subsection \<open>Failure of the subprocess\<close>

text \<open>
  C2. When the process started by \<^verbatim>\<open>Command.get\<close> exits with a code other than 0, the call
  raises the \<^verbatim>\<open>CalledProcessError\<close> that \<^verbatim>\<open>check_output\<close> built (exit code, command and
  captured output), and exactly one record reaches the telemetry sink, after the process
  has run: the tool name, the exit code and the output.
\<close>

theorem Command_get_failure:
  assumes "dict (objs w self) ''name'' = Some (Str n)"
    and "dict (objs w self) ''path'' = Some (Str p)"
    and "subcommand \<noteq> []"
    and "sys (log_info w (running_message (path_join p n # subcommand)))
           (path_join p n # subcommand) p opts = (Exited code out, files)"
    and "code \<noteq> 0"
    and "Command_get sys w self subcommand opts = (rv, w')"
  shows "rv = Inl (CalledProcessError code (path_join p n # subcommand) out)
       \<and> telemetry w' = telemetry w @ [RecordException (Str n) code out]
       \<and> trace w' = trace w @
            [LogInfo (running_message (path_join p n # subcommand)),
             Spawn (path_join p n # subcommand) p opts,
             RecordException (Str n) code out]"
  using assms
  by (auto simp add: Command_get_def read_attr_found check_output_def Let_def log_info_def
      telemetry_def)

theorem Command_get_failure_witness:
  "(case Command_new world0 ''git'' ''/repo'' of (self, w) \<Rightarrow>
      (case Command_get failing_sys w self [''status''] [] of (rv, w') \<Rightarrow>
         rv = Inl (CalledProcessError 2 [''/repo/git'', ''status''] ''fatal: not a repository'')
       \<and> telemetry w' = [RecordException (Str ''git'') 2 ''fatal: not a repository'']))"
proof -
  obtain self w where new: "Command_new world0 ''git'' ''/repo'' = (self, w)"
    by (cases "Command_new world0 ''git'' ''/repo''")
  obtain rv w' where run: "Command_get failing_sys w self [''status''] [] = (rv, w')"
    by (cases "Command_get failing_sys w self [''status''] []")
  have n: "dict (objs w self) ''name'' = Some (Str ''git'')"
    and p: "dict (objs w self) ''path'' = Some (Str ''/repo'')"
    and t: "telemetry w = []"
    using new
    by (auto simp: Command_new_def new_object_def Command_init_def set_attr_def world0_def
        telemetry_def)
  have j: "path_join ''/repo'' ''git'' = ''/repo/git''"
    by (simp add: path_join_def startswith_def endswith_def)
  have "rv = Inl (CalledProcessError 2 (path_join ''/repo'' ''git'' # [''status''])
                    ''fatal: not a repository'')
      \<and> telemetry w' = telemetry w @ [RecordException (Str ''git'') 2 ''fatal: not a repository'']
      \<and> trace w' = trace w @
            [LogInfo (running_message (path_join ''/repo'' ''git'' # [''status''])),
             Spawn (path_join ''/repo'' ''git'' # [''status'']) ''/repo'' [],
             RecordException (Str ''git'') 2 ''fatal: not a repository'']"
    by (rule Command_get_failure [OF n p _ _ _ run]) (simp_all add: failing_sys_def)
  then show ?thesis
    by (simp add: new run j t)
qed


subsection \<open>Dynamic dispatch\<close>

lemma endswith_underscore: "endswith X ''_'' \<longleftrightarrow> X \<noteq> [] \<and> last X = CHR ''_''"
  by (cases X rule: rev_cases) (simp_all add: endswith_def)

lemma token_eq:
  "replace (if endswith X ''_'' then butlast X else X) CHR ''_'' CHR ''-'' = subcommand_token X"
  by (simp add: replace_def subcommand_token_def endswith_underscore)

lemmas new_defs = Command_new_def new_object_def Command_init_def set_attr_def world0_def

lemmas getattr_defs = py_getattr_def Command_getattr_def data_descriptors_def object_attrs_def
  endswith_def Let_def

text \<open>
  Once a bound method sits in \<^verbatim>\<open>__dict__\<close> under the name \<^verbatim>\<open>get\<close>, the expression
  \<^verbatim>\<open>self.get(...)\<close> calls that method, whose body is \<^verbatim>\<open>self.get(...)\<close> again: the
  calls nest until the recursion limit, whatever it is, and end in \<^verbatim>\<open>RuntimeError\<close>.
\<close>

lemma self_get_shadowed:
  assumes "dict (objs w self) ''get'' = Some (Method i self nm)"
  shows "self_get d sys w self args kwargs = (Inl RuntimeError, w)"
  using assms
proof (induction d arbitrary: args)
  case 0
  show ?case by simp
next
  case (Suc d)
  from Suc.prems have "py_getattr w self ''get'' = (Found (Method i self nm), w)"
    by (simp add: py_getattr_def)
  with Suc.IH [OF Suc.prems] show ?case by simp
qed

text \<open>
  C1. On a new \<^verbatim>\<open>Command("git", "/repo")\<close> the name \<^verbatim>\<open>get_\<close> is not defined: it is no
  data descriptor, not in \<^verbatim>\<open>__dict__\<close> and not on the class. Reading it yields a bound
  method that \<^verbatim>\<open>__getattr__\<close> has stored under the stripped name \<^verbatim>\<open>get\<close>, where it
  hides \<^verbatim>\<open>Command.get\<close>. Calling that method with \<^verbatim>\<open>--all\<close> raises \<^verbatim>\<open>RuntimeError\<close>
  at every recursion limit and leaves the state as it was, so no process is started;
  \<^verbatim>\<open>Command.get("get", "--all")\<close> on the same instance starts \<^verbatim>\<open>/repo/git get --all\<close>
  and returns its output.
\<close>

theorem get_underscore_never_runs_get:
  "(case Command_new world0 ''git'' ''/repo'' of (self, w) \<Rightarrow>
      ''get_'' \<notin> set data_descriptors \<and> dict (objs w self) ''get_'' = None \<and>
      ''get_'' \<notin> set (class_attrs (cls (objs w self))) \<and>
      (case py_getattr w self ''get_'' of (r, w') \<Rightarrow>
         r = Found (Method 1 self ''get'') \<and>
         dict (objs w' self) ''get'' = Some (Method 1 self ''get'') \<and>
         (\<forall>d. invoke d passing_sys w' (Method 1 self ''get'') [''--all''] [] =
                (Inl RuntimeError, w')) \<and>
         fst (Command_get passing_sys w' self [''get'', ''--all''] []) = Inr (Str ''ok'') \<and>
         trace (snd (Command_get passing_sys w' self [''get'', ''--all''] [])) =
           [LogInfo (running_message [''/repo/git'', ''get'', ''--all'']),
            Spawn [''/repo/git'', ''get'', ''--all''] ''/repo'' []]))"
proof -
  obtain self w where new: "Command_new world0 ''git'' ''/repo'' = (self, w)"
    by (cases "Command_new world0 ''git'' ''/repo''")
  obtain r w' where ga: "py_getattr w self ''get_'' = (r, w')"
    by (cases "py_getattr w self ''get_''")
  have u: "''get_'' \<notin> set data_descriptors" "dict (objs w self) ''get_'' = None"
    "''get_'' \<notin> set (class_attrs (cls (objs w self)))"
    using new by (auto simp: new_defs data_descriptors_def object_attrs_def)
  have r: "r = Found (Method 1 self ''get'')"
    and g: "dict (objs w' self) ''get'' = Some (Method 1 self ''get'')"
    and n: "dict (objs w' self) ''name'' = Some (Str ''git'')"
    and p: "dict (objs w' self) ''path'' = Some (Str ''/repo'')"
    and t: "trace w' = []"
    using new ga by (auto simp: new_defs getattr_defs)
  have inv: "\<forall>d. invoke d passing_sys w' (Method 1 self ''get'') [''--all''] [] =
      (Inl RuntimeError, w')"
    by (simp add: self_get_shadowed [OF g])
  have j: "path_join ''/repo'' ''git'' = ''/repo/git''"
    by (simp add: path_join_def startswith_def endswith_def)
  have cg: "fst (Command_get passing_sys w' self [''get'', ''--all''] []) = Inr (Str ''ok'')"
    "trace (snd (Command_get passing_sys w' self [''get'', ''--all''] [])) =
      [LogInfo (running_message [''/repo/git'', ''get'', ''--all'']),
       Spawn [''/repo/git'', ''get'', ''--all''] ''/repo'' []]"
    using n p t
    by (simp_all add: Command_get_def read_attr_found check_output_def Let_def passing_sys_def j)
  show ?thesis
    using u r g inv cg by (simp add: new ga)
qed

text \<open>
  Every other name behaves as intended. When the attribute \<open>X\<close> is not already defined
  and, after the read, \<^verbatim>\<open>__dict__\<close> holds nothing under \<^verbatim>\<open>get\<close>, the read yields a bound
  method, and calling it is the \<^verbatim>\<open>get\<close> of the instance's class (\<^verbatim>\<open>Mach.get\<close>, the
  mock's, or \<^verbatim>\<open>Command.get\<close>) on the token followed by the arguments, where the token is
  \<open>X\<close> without one trailing underscore and with its other underscores turned into hyphens.
\<close>

lemma dynamic_attribute_runs_class_get:
  assumes "\<not> defined_attr w self X" and "py_getattr w self X = (r, w')"
    and "dict (objs w' self) ''get'' = None"
  shows "\<exists>m. r = Found m
           \<and> (\<forall>d sys args kwargs.
                 invoke (Suc d) sys w' m args kwargs =
                   (case cls (objs w' self) of
                      MachC \<Rightarrow> Mach_get sys w' self (subcommand_token X # args) kwargs
                    | MockC c \<Rightarrow> MockCommand_get w' self (subcommand_token X # args) kwargs
                    | _ \<Rightarrow> Command_get sys w' self (subcommand_token X # args) kwargs))"
proof -
  let ?name = "if endswith X ''_'' then butlast X else X"
  let ?m = "Method (next_id w) self ?name"
  from assms(1,2) have r: "r = Found ?m"
    and w': "w' = w\<lparr>objs := (objs w)(self := (objs w self)\<lparr>dict := (dict (objs w self))(?name \<mapsto> ?m)\<rparr>),
                     next_id := Suc (next_id w)\<rparr>"
    by (auto simp add: defined_attr_def py_getattr_def Command_getattr_def Let_def
        split: option.splits)
  from assms(3) have g: "py_getattr w' self ''get'' = (OnClass, w')"
    by (cases "cls (objs w' self)") (simp_all add: py_getattr_def)
  have "invoke (Suc d) sys w' ?m args kwargs =
          (case cls (objs w' self) of
             MachC \<Rightarrow> Mach_get sys w' self (subcommand_token X # args) kwargs
           | MockC c \<Rightarrow> MockCommand_get w' self (subcommand_token X # args) kwargs
           | _ \<Rightarrow> Command_get sys w' self (subcommand_token X # args) kwargs)"
    for d sys args kwargs
    using g by (simp add: token_eq split: pyclass.splits)
  with r show ?thesis by blast
qed

lemma dynamic_attribute_list_example:
  "(case Command_new world0 ''git'' ''/repo'' of (self, w) \<Rightarrow>
      \<not> defined_attr w self ''list_'' \<and>
      (case py_getattr w self ''list_'' of (r, w') \<Rightarrow>
         r = Found (Method 1 self ''list'') \<and>
         invoke 1 passing_sys w' (Method 1 self ''list'') [''--all''] [] =
           Command_get passing_sys w' self [''list'', ''--all''] [] \<and>
         trace (snd (invoke 1 passing_sys w' (Method 1 self ''list'') [''--all''] [])) =
           [LogInfo (running_message [''/repo/git'', ''list'', ''--all'']),
            Spawn [''/repo/git'', ''list'', ''--all''] ''/repo'' []]))"
proof -
  obtain self w where new: "Command_new world0 ''git'' ''/repo'' = (self, w)"
    by (cases "Command_new world0 ''git'' ''/repo''")
  obtain r w' where ga: "py_getattr w self ''list_'' = (r, w')"
    by (cases "py_getattr w self ''list_''")
  have nd: "\<not> defined_attr w self ''list_''"
    using new by (auto simp: new_defs defined_attr_def data_descriptors_def object_attrs_def)
  have r: "r = Found (Method 1 self ''list'')"
    using new ga by (auto simp: new_defs getattr_defs)
  have c: "cls (objs w' self) = CommandC"
    and g: "dict (objs w' self) ''get'' = None"
    and n: "dict (objs w' self) ''name'' = Some (Str ''git'')"
    and p: "dict (objs w' self) ''path'' = Some (Str ''/repo'')"
    and t: "trace w' = []"
    using new ga by (auto simp: new_defs getattr_defs)
  have tok: "subcommand_token ''list_'' = ''list''"
    by (simp add: subcommand_token_def)
  from dynamic_attribute_runs_class_get [OF nd ga g] r c
  have run: "invoke (Suc 0) passing_sys w' (Method 1 self ''list'') [''--all''] [] =
      Command_get passing_sys w' self (subcommand_token ''list_'' # [''--all'']) []"
    by auto
  have j: "path_join ''/repo'' ''git'' = ''/repo/git''"
    by (simp add: path_join_def startswith_def endswith_def)
  have tr: "trace (snd (Command_get passing_sys w' self [''list'', ''--all''] [])) =
      [LogInfo (running_message [''/repo/git'', ''list'', ''--all'']),
       Spawn [''/repo/git'', ''list'', ''--all''] ''/repo'' []]"
    using n p t
    by (simp add: Command_get_def read_attr_found check_output_def Let_def passing_sys_def j)
  show ?thesis
    using nd r run tr by (simp add: new ga tok)
qed

text \<open>
  A name without a trailing underscore is stored under itself: reading it again finds the
  stored method in \<^verbatim>\<open>__dict__\<close>, returns that same object and changes nothing.
\<close>

lemma plain_name_cached:
  assumes "\<not> defined_attr w self X" and "\<not> endswith X ''_''" and "py_getattr w self X = (r, w')"
  shows "py_getattr w' self X = (r, w')"
  using assms
  by (auto simp add: defined_attr_def py_getattr_def Command_getattr_def Let_def
      split: option.splits)

text \<open>
  C4. On a new \<^verbatim>\<open>Command("git", "/repo")\<close>, reading \<^verbatim>\<open>list_\<close> twice gives two bound
  methods of different identity: \<^verbatim>\<open>__getattr__\<close> stores the method under the stripped name
  \<^verbatim>\<open>list\<close>, the name \<^verbatim>\<open>list_\<close> stays undefined, and the second read builds a new object.
\<close>

theorem trailing_underscore_not_cached:
  "(case Command_new world0 ''git'' ''/repo'' of (self, w1) \<Rightarrow>
      (case py_getattr w1 self ''list_'' of (a, w2) \<Rightarrow>
         (case py_getattr w2 self ''list_'' of (b, w3) \<Rightarrow>
            a = Found (Method 1 self ''list'') \<and> b = Found (Method 2 self ''list'') \<and> a \<noteq> b
            \<and> dict (objs w2 self) ''list_'' = None
            \<and> dict (objs w2 self) ''list'' = Some (Method 1 self ''list''))))"
  by (simp add: new_defs getattr_defs)

text \<open>
  C9. On a new \<^verbatim>\<open>Command("git", "/repo")\<close>, reading the attributes \<^verbatim>\<open>name_\<close> and
  \<^verbatim>\<open>path_\<close> replaces the values of \<^verbatim>\<open>name\<close> and \<^verbatim>\<open>path\<close> by bound methods:
  \<^verbatim>\<open>__getattr__\<close> writes the method it builds into \<^verbatim>\<open>__dict__\<close> under the stripped name,
  which is the key of the attribute set by the constructor.
\<close>

theorem name_underscore_overwrites_name:
  "(case Command_new world0 ''git'' ''/repo'' of (self, w1) \<Rightarrow>
      (case py_getattr w1 self ''name_'' of (a, w2) \<Rightarrow>
         (case py_getattr w2 self ''path_'' of (b, w3) \<Rightarrow>
            dict (objs w1 self) ''name'' = Some (Str ''git'')
          \<and> dict (objs w1 self) ''path'' = Some (Str ''/repo'')
          \<and> dict (objs w3 self) ''name'' = Some (Method 1 self ''name'')
          \<and> dict (objs w3 self) ''path'' = Some (Method 2 self ''path''))))"
  by (simp add: new_defs getattr_defs)


subsection \<open>The cache directory of Mach\<close>

text \<open>\<^verbatim>\<open>Command.get\<close> touches no entry of \<^verbatim>\<open>__dict__\<close> other than \<^verbatim>\<open>name\<close> and \<^verbatim>\<open>path\<close>.\<close>

lemma read_attr_other:
  assumes "read_attr w self k = (v, w1)" and "\<not> endswith k ''_''" and "k' \<noteq> k"
  shows "dict (objs w1 self) k' = dict (objs w self) k'"
  using assms
  by (auto simp add: read_attr_def py_getattr_def Command_getattr_def Let_def
      split: option.splits if_splits)

lemma endswith_consts [simp]: "\<not> endswith ''path'' ''_''" "\<not> endswith ''name'' ''_''"
  by (simp_all add: endswith_def)

lemma report_other:
  assumes "report w self e = (rv, w1)" and "k' \<noteq> ''name''"
  shows "dict (objs w1 self) k' = dict (objs w self) k'"
  using assms
  by (cases e) (auto simp: Let_def split: prod.splits dest!: read_attr_other)

lemma check_output_objs: "check_output sys w command cwd opts = (r, w1) \<Longrightarrow> objs w1 = objs w"
  by (auto simp: check_output_def Let_def split: prod.splits proc_outcome.splits)

lemma Command_get_other:
  assumes "Command_get sys w self subcommand opts = (rv, w1)"
    and "k' \<noteq> ''name''" and "k' \<noteq> ''path''"
  shows "dict (objs w1 self) k' = dict (objs w self) k'"
proof (cases "subcommand = []")
  case True
  with assms show ?thesis by (simp add: Command_get_def)
next
  case False
  obtain p wa where a: "read_attr w self ''path'' = (p, wa)" by (cases "read_attr w self ''path''")
  obtain n wb where b: "read_attr wa self ''name'' = (n, wb)" by (cases "read_attr wa self ''name''")
  have ab: "dict (objs wb self) k' = dict (objs w self) k'"
    using read_attr_other [OF a] read_attr_other [OF b] assms(2,3) by simp
  show ?thesis
  proof (cases "join_attrs p n")
    case (Inl e)
    with assms(1) False a b ab show ?thesis by (simp add: Command_get_def)
  next
    case (Inr exe)
    let ?w3 = "log_info wb (running_message (exe # subcommand))"
    obtain cwd wc where c: "read_attr ?w3 self ''path'' = (cwd, wc)"
      by (cases "read_attr ?w3 self ''path''")
    have cd: "dict (objs wc self) k' = dict (objs w self) k'"
      using read_attr_other [OF c] assms(3) ab by simp
    show ?thesis
    proof (cases cwd)
      case (Str d)
      obtain r wd where d: "check_output sys wc (exe # subcommand) d opts = (r, wd)"
        by (cases "check_output sys wc (exe # subcommand) d opts")
      from check_output_objs [OF d] cd have de: "dict (objs wd self) k' = dict (objs w self) k'"
        by simp
      show ?thesis
      proof (cases r)
        case (Inl e)
        with assms(1) False a b Inr c Str d have "report wd self e = (rv, w1)"
          by (simp add: Command_get_def Let_def)
        from report_other [OF this assms(2)] de show ?thesis by simp
      next
        case (Inr out)
        with assms(1) False a b \<open>join_attrs p n = Inr exe\<close> c Str d de show ?thesis
          by (simp add: Command_get_def Let_def)
      qed
    qed (use assms(1) False a b Inr c cd in \<open>simp_all add: Command_get_def Let_def\<close>)
  qed
qed

lemmas mach_new_defs = Mach_new_def Mach_init_def new_object_def Command_init_def set_attr_def
  world0_def path_join_def startswith_def endswith_def

text \<open>
  C3, as claimed: after a build that succeeds and after one that fails, with a cache
  directory that may not be removed, \<^verbatim>\<open>shutil.rmtree\<close> raises in the \<^verbatim>\<open>finally\<close> block
  and \<^verbatim>\<open>Mach.get\<close> raises that \<^verbatim>\<open>OSError\<close>: the value \<^verbatim>\<open>ok\<close> of the superclass is lost
  in the first case and its \<^verbatim>\<open>CalledProcessError\<close> in the second.
\<close>

theorem Mach_get_cleanup_masks:
  "(case Mach_new world0 ''/home/u'' ''/src'' of (self, w) \<Rightarrow>
      fst (Command_get stuck_sys w self [''build''] []) = Inr (Str ''ok'')
    \<and> fst (Mach_get stuck_sys w self [''build''] []) = Inl OSError
    \<and> fst (Command_get stuck_failing_sys w self [''build''] []) =
        Inl (CalledProcessError 1 [''/src/mach'', ''build''] ''build failed'')
    \<and> fst (Mach_get stuck_failing_sys w self [''build''] []) = Inl OSError)"
  by (simp add: mach_new_defs Mach_get_def cleanup_def Command_get_def read_attr_def
      check_output_def log_info_def Let_def stuck_sys_def stuck_failing_sys_def rmtree_def)

text \<open>
  C3, amended. \<^verbatim>\<open>Mach.get\<close> on an instance whose \<^verbatim>\<open>wpt_cache\<close> holds the path set by the
  constructor runs \<^verbatim>\<open>Command.get\<close> and then, whether that returned or raised, checks the
  existence of the cache path exactly once and calls \<^verbatim>\<open>shutil.rmtree\<close> exactly once when
  the path exists. When the path is absent or is a directory that can be removed, the
  outcome of \<^verbatim>\<open>Command.get\<close>, value or exception, is the outcome of the call. When the
  path exists and \<^verbatim>\<open>shutil.rmtree\<close> raises, that \<^verbatim>\<open>OSError\<close> is the outcome instead.
\<close>

theorem Mach_get_cleanup:
  assumes "dict (objs w self) ''wpt_cache'' = Some (Str c)"
    and "Command_get sys w self subcommand opts = (rv, w1)"
  shows "Mach_get sys w self subcommand opts =
           (case fs w1 c of
              None \<Rightarrow> (rv, w1\<lparr>trace := trace w1 @ [PathExists c]\<rparr>)
            | Some Dir \<Rightarrow>
                (rv, w1\<lparr>trace := trace w1 @ [PathExists c, RmTree c],
                        fs := remove_tree c (fs w1)\<rparr>)
            | Some _ \<Rightarrow> (Inl OSError, w1\<lparr>trace := trace w1 @ [PathExists c, RmTree c]\<rparr>))"
proof -
  have c1: "dict (objs w1 self) ''wpt_cache'' = Some (Str c)"
    using Command_get_other [OF assms(2), of "''wpt_cache''"] assms(1) by simp
  show ?thesis
    using c1 assms(2)
    by (simp add: Mach_get_def cleanup_def read_attr_found Let_def rmtree_def
        split: option.splits node.splits)
qed

theorem Mach_get_cleanup_witness:
  "(case Mach_new world0 ''/home/u'' ''/src'' of (self, w) \<Rightarrow>
      (case Mach_get mach_sys w self [''build''] [] of (rv, w') \<Rightarrow>
         rv = Inl (CalledProcessError 1 [''/src/mach'', ''build''] ''build failed'')
       \<and> fs w' = Map.empty
       \<and> trace w' =
           [LogInfo (running_message [''/src/mach'', ''build'']),
            Spawn [''/src/mach'', ''build''] ''/src'' [],
            RecordException (Str ''mach'') 1 ''build failed'',
            PathExists ''/home/u/.mozbuild/cache/wpt'',
            RmTree ''/home/u/.mozbuild/cache/wpt'']))"
proof -
  obtain self w where new: "Mach_new world0 ''/home/u'' ''/src'' = (self, w)"
    by (cases "Mach_new world0 ''/home/u'' ''/src''")
  obtain rv w1 where run: "Command_get mach_sys w self [''build''] [] = (rv, w1)"
    by (cases "Command_get mach_sys w self [''build''] []")
  have c: "dict (objs w self) ''wpt_cache'' = Some (Str ''/home/u/.mozbuild/cache/wpt'')"
    and n: "dict (objs w self) ''name'' = Some (Str ''mach'')"
    and p: "dict (objs w self) ''path'' = Some (Str ''/src'')"
    and t: "trace w = []" and f: "fs w = Map.empty"
    using new by (auto simp: mach_new_defs)
  have j: "path_join ''/src'' ''mach'' = ''/src/mach''"
    by (simp add: path_join_def startswith_def endswith_def)
  have rv: "rv = Inl (CalledProcessError 1 [''/src/mach'', ''build''] ''build failed'')"
    and t1: "trace w1 = [LogInfo (running_message [''/src/mach'', ''build'']),
            Spawn [''/src/mach'', ''build''] ''/src'' [],
            RecordException (Str ''mach'') 1 ''build failed'']"
    and f1: "fs w1 = [''/home/u/.mozbuild/cache/wpt'' \<mapsto> Dir]"
    using run n p t f
    by (auto simp add: Command_get_def read_attr_found check_output_def Let_def log_info_def
        mach_sys_def j)
  have rm: "remove_tree ''/home/u/.mozbuild/cache/wpt'' [''/home/u/.mozbuild/cache/wpt'' \<mapsto> Dir] =
      Map.empty"
    by (auto simp: remove_tree_def fun_eq_iff)
  show ?thesis
    using Mach_get_cleanup [OF c run] rv t1 f1 rm
    by (simp add: new)
qed


subsection \<open>The mock\<close>

lemma py_getattr_class:
  "dict (objs w self) k = None \<Longrightarrow> k \<notin> set data_descriptors \<Longrightarrow>
   k \<in> set (class_attrs (cls (objs w self))) \<Longrightarrow> py_getattr w self k = (OnClass, w)"
  by (simp add: py_getattr_def)

lemma mock_get_eq:
  assumes "wf_mock w self c n p"
    and "scripted_value (mock_data (classes w c) a) rest kwargs = Inr v"
  shows "MockCommand_get w self (a # rest) kwargs =
           (Inr v, log_append w c \<lparr>entry_command = n, entry_cwd = p, entry_args = a # rest,
                                   entry_kwargs = kwargs, entry_rv = v\<rparr>)"
  using assms
  by (simp add: wf_mock_def MockCommand_get_def py_getattr_class read_attr_found Let_def
      log_append_def)

lemma wf_mock_set_data [simp]: "wf_mock (set_data c' w k v) self c n p = wf_mock w self c n p"
  by (simp add: wf_mock_def set_data_def)

lemma wf_mock_log_append [simp]: "wf_mock (log_append w c' e) self c n p = wf_mock w self c n p"
  by (simp add: wf_mock_def log_append_def)

lemma mock_data_set_data [simp]: "mock_data (classes (set_data c w k v) c) k = Some v"
  by (simp add: set_data_def)

lemma mock_data_log_append [simp]: "mock_data (classes (log_append w c' e) c) = mock_data (classes w c)"
  by (simp add: log_append_def)

lemma get_log_log_append [simp]: "get_log c (log_append w c e) = get_log c w @ [e]"
  by (simp add: log_append_def get_log_def)

lemma get_log_set_data [simp]: "get_log c (set_data c' w k v) = get_log c w"
  by (simp add: set_data_def get_log_def)

lemma upper_foo: "upper ''foo'' = ''FOO''"
  by (simp add: upper_def)

lemmas mock_new_defs = create_mock_def MockCommand_new_def MockCommand_init_def new_object_def
  set_attr_def set_data_def world0_def

text \<open>
  C5. \<^verbatim>\<open>MockCommand.get\<close> with at least one positional argument: the first argument is
  looked up in the table of the class, an unregistered name giving the empty string and a
  registered callable being applied to the remaining arguments and the options; when that
  yields a value, the value is returned and one entry with \<^verbatim>\<open>self.name\<close>, \<^verbatim>\<open>self.path\<close>,
  all the arguments, the options and the value is appended to the log of the class, and
  nothing else changes.
\<close>

theorem MockCommand_get_logs:
  assumes "wf_mock w self c n p"
    and "(case mock_data (classes w c) a of
            None \<Rightarrow> Inr (Str [])
          | Some (Literal s) \<Rightarrow> Inr (Str s)
          | Some (Callable f) \<Rightarrow> f rest kwargs) = Inr v"
    and "MockCommand_get w self (a # rest) kwargs = (rv, w')"
  shows "rv = Inr v
       \<and> get_log c w' = get_log c w @
            [\<lparr>entry_command = n, entry_cwd = p, entry_args = a # rest,
              entry_kwargs = kwargs, entry_rv = v\<rparr>]
       \<and> w' = log_append w c \<lparr>entry_command = n, entry_cwd = p, entry_args = a # rest,
                                entry_kwargs = kwargs, entry_rv = v\<rparr>"
proof -
  have "scripted_value (mock_data (classes w c) a) rest kwargs = Inr v"
    using assms(2) by (auto split: option.splits scripted.splits)
  from mock_get_eq [OF assms(1) this] assms(3) show ?thesis
    by (auto simp: get_log_def log_append_def)
qed

theorem MockCommand_get_logs_witness:
  "(case create_mock world0 ''git'' of (c, w1) \<Rightarrow>
      (case MockCommand_new c (set_data c w1 ''export'' (Callable upper_arg)) ''/repo'' of (self, w2) \<Rightarrow>
         (case MockCommand_get w2 self [''status''] [] of (rv3, w3) \<Rightarrow>
            (case MockCommand_get w3 self [''export'', ''foo''] [] of (rv4, w4) \<Rightarrow>
               rv3 = Inr (Str []) \<and> rv4 = Inr (Str ''FOO'') \<and>
               get_log c w4 =
                 [\<lparr>entry_command = Str ''git'', entry_cwd = Str ''/repo'', entry_args = [''status''],
                   entry_kwargs = [], entry_rv = Str []\<rparr>,
                  \<lparr>entry_command = Str ''git'', entry_cwd = Str ''/repo'',
                   entry_args = [''export'', ''foo''], entry_kwargs = [], entry_rv = Str ''FOO''\<rparr>]))))"
proof -
  obtain c w1 where cm: "create_mock world0 ''git'' = (c, w1)"
    by (cases "create_mock world0 ''git''")
  obtain self w2
    where new: "MockCommand_new c (set_data c w1 ''export'' (Callable upper_arg)) ''/repo'' = (self, w2)"
    by (cases "MockCommand_new c (set_data c w1 ''export'' (Callable upper_arg)) ''/repo''")
  obtain rv3 w3 where g3: "MockCommand_get w2 self [''status''] [] = (rv3, w3)"
    by (cases "MockCommand_get w2 self [''status''] []")
  obtain rv4 w4 where g4: "MockCommand_get w3 self [''export'', ''foo''] [] = (rv4, w4)"
    by (cases "MockCommand_get w3 self [''export'', ''foo''] []")
  have wf2: "wf_mock w2 self c (Str ''git'') (Str ''/repo'')"
    and d2s: "mock_data (classes w2 c) ''status'' = None"
    and d2e: "mock_data (classes w2 c) ''export'' = Some (Callable upper_arg)"
    and l2: "get_log c w2 = []"
    using cm new by (auto simp: mock_new_defs wf_mock_def get_log_def)
  have s3: "(case mock_data (classes w2 c) ''status'' of
            None \<Rightarrow> Inr (Str [])
          | Some (Literal s) \<Rightarrow> Inr (Str s)
          | Some (Callable f) \<Rightarrow> f [] []) = Inr (Str [])"
    using d2s by simp
  note r3 = MockCommand_get_logs [OF wf2 s3 g3]
  have wf3: "wf_mock w3 self c (Str ''git'') (Str ''/repo'')"
    and d3e: "mock_data (classes w3 c) ''export'' = Some (Callable upper_arg)"
    using r3 wf2 d2e by (auto simp: wf_mock_def log_append_def)
  have s4: "(case mock_data (classes w3 c) ''export'' of
            None \<Rightarrow> Inr (Str [])
          | Some (Literal s) \<Rightarrow> Inr (Str s)
          | Some (Callable f) \<Rightarrow> f [''foo''] []) = Inr (Str ''FOO'')"
    using d3e by (simp add: upper_foo)
  note r4 = MockCommand_get_logs [OF wf3 s4 g4]
  have "rv3 = Inr (Str [])" and "rv4 = Inr (Str ''FOO'')"
    and "get_log c w4 =
       [\<lparr>entry_command = Str ''git'', entry_cwd = Str ''/repo'', entry_args = [''status''],
         entry_kwargs = [], entry_rv = Str []\<rparr>,
        \<lparr>entry_command = Str ''git'', entry_cwd = Str ''/repo'',
         entry_args = [''export'', ''foo''], entry_kwargs = [], entry_rv = Str ''FOO''\<rparr>]"
    using r3 [THEN conjunct1] r4 [THEN conjunct1] l2
      r3 [THEN conjunct2, THEN conjunct1] r4 [THEN conjunct2, THEN conjunct1]
    by simp_all
  then show ?thesis
    by (simp add: cm new g3 g4)
qed

text \<open>
  C10. \<^verbatim>\<open>MockCommand.get\<close> with no positional argument raises \<^verbatim>\<open>IndexError\<close> at
  \<^verbatim>\<open>args[0]\<close>, not the \<^verbatim>\<open>AssertionError\<close> of \<^verbatim>\<open>Command.get\<close>, and leaves the state, the
  log included, as it was; \<^verbatim>\<open>self.get()\<close> on a mock instance is that call.
\<close>

theorem MockCommand_get_no_args:
  assumes "cls (objs w self) = MockC c" and "dict (objs w self) ''_data'' = None"
  shows "MockCommand_get w self [] kwargs = (Inl IndexError, w)
       \<and> (dict (objs w self) ''get'' = None \<longrightarrow>
            self_get (Suc d) sys w self [] kwargs = (Inl IndexError, w))"
  using assms by (simp add: MockCommand_get_def py_getattr_class)

theorem MockCommand_get_no_args_witness:
  "(case create_mock world0 ''git'' of (c, w1) \<Rightarrow>
      (case MockCommand_new c w1 ''/repo'' of (self, w2) \<Rightarrow>
         MockCommand_get w2 self [] [] = (Inl IndexError, w2) \<and>
         self_get 1 passing_sys w2 self [] [] = (Inl IndexError, w2) \<and>
         get_log c w2 = []))"
proof -
  obtain c w1 where cm: "create_mock world0 ''git'' = (c, w1)"
    by (cases "create_mock world0 ''git''")
  obtain self w2 where new: "MockCommand_new c w1 ''/repo'' = (self, w2)"
    by (cases "MockCommand_new c w1 ''/repo''")
  have a: "cls (objs w2 self) = MockC c" and b: "dict (objs w2 self) ''_data'' = None"
    and g: "dict (objs w2 self) ''get'' = None"
    and l: "get_log c w2 = []"
    using cm new by (auto simp: mock_new_defs get_log_def)
  show ?thesis
    using MockCommand_get_no_args [OF a b, of "[]" 0 passing_sys] g l by (simp add: cm new)
qed


text \<open>
  C6, as claimed: two calls \<^verbatim>\<open>create_mock("git")\<close> make two classes for the same tool
  name, each with its own table and log. Data registered on the first class is not seen
  by an instance of the second, and each log holds only the calls of its own class.
\<close>

theorem mock_state_not_shared_by_tool_name:
  "(case create_mock world0 ''git'' of (c1, w1) \<Rightarrow>
   (case create_mock w1 ''git'' of (c2, w2) \<Rightarrow>
   (case MockCommand_new c1 w2 ''/a'' of (r1, w3) \<Rightarrow>
   (case MockCommand_new c2 w3 ''/b'' of (r2, w4) \<Rightarrow>
   (case MockCommand_get (set_data c1 w4 ''status'' (Literal ''clean'')) r1 [''status''] [] of (rv1, w5) \<Rightarrow>
   (case MockCommand_get w5 r2 [''status''] [] of (rv2, w6) \<Rightarrow>
      tool (classes w6 c1) = ''git'' \<and> tool (classes w6 c2) = ''git''
    \<and> rv1 = Inr (Str ''clean'') \<and> rv2 = Inr (Str [])
    \<and> get_log c1 w6 =
        [\<lparr>entry_command = Str ''git'', entry_cwd = Str ''/a'', entry_args = [''status''],
          entry_kwargs = [], entry_rv = Str ''clean''\<rparr>]
    \<and> get_log c2 w6 =
        [\<lparr>entry_command = Str ''git'', entry_cwd = Str ''/b'', entry_args = [''status''],
          entry_kwargs = [], entry_rv = Str []\<rparr>]))))))"
  by (simp add: mock_new_defs MockCommand_get_def py_getattr_def read_attr_def
      data_descriptors_def get_log_def)

text \<open>
  C6, amended: the table and the log belong to the class that one call of
  \<^verbatim>\<open>create_mock\<close> returned. For two instances of the same class, data registered with
  \<^verbatim>\<open>set_data\<close> (a class method, so the same through either instance) is what both
  look up, and their calls are appended to one log in call order.
\<close>

theorem mock_state_shared_per_class:
  assumes "wf_mock w r1 c n1 p1" and "wf_mock w r2 c n2 p2"
    and "MockCommand_get (set_data c w k (Literal s)) r1 (k # rest1) kw1 = (rv1, wa)"
    and "MockCommand_get wa r2 (k # rest2) kw2 = (rv2, wb)"
  shows "rv1 = Inr (Str s) \<and> rv2 = Inr (Str s)
       \<and> get_log c wb = get_log c w @
           [\<lparr>entry_command = n1, entry_cwd = p1, entry_args = k # rest1,
             entry_kwargs = kw1, entry_rv = Str s\<rparr>,
            \<lparr>entry_command = n2, entry_cwd = p2, entry_args = k # rest2,
             entry_kwargs = kw2, entry_rv = Str s\<rparr>]"
proof -
  let ?w1 = "set_data c w k (Literal s)"
  let ?e1 = "\<lparr>entry_command = n1, entry_cwd = p1, entry_args = k # rest1,
             entry_kwargs = kw1, entry_rv = Str s\<rparr>"
  have a: "MockCommand_get ?w1 r1 (k # rest1) kw1 = (Inr (Str s), log_append ?w1 c ?e1)"
    using assms(1) by (intro mock_get_eq) simp_all
  with assms(3) have rv1: "rv1 = Inr (Str s)" and wa: "wa = log_append ?w1 c ?e1"
    by simp_all
  have "MockCommand_get wa r2 (k # rest2) kw2 =
      (Inr (Str s), log_append wa c \<lparr>entry_command = n2, entry_cwd = p2, entry_args = k # rest2,
             entry_kwargs = kw2, entry_rv = Str s\<rparr>)"
    using assms(2) by (intro mock_get_eq) (simp_all add: wa)
  with assms(4) show ?thesis
    using rv1 by (auto simp: wa)
qed

theorem mock_state_shared_per_class_witness:
  "(case create_mock world0 ''git'' of (c, w1) \<Rightarrow>
   (case MockCommand_new c w1 ''/a'' of (r1, w2) \<Rightarrow>
   (case MockCommand_new c w2 ''/b'' of (r2, w3) \<Rightarrow>
   (case MockCommand_get (set_data c w3 ''status'' (Literal ''clean'')) r1 [''status''] [] of (rv1, w4) \<Rightarrow>
   (case MockCommand_get w4 r2 [''status''] [] of (rv2, w5) \<Rightarrow>
      r1 \<noteq> r2 \<and> rv1 = Inr (Str ''clean'') \<and> rv2 = Inr (Str ''clean'')
    \<and> get_log c w5 =
        [\<lparr>entry_command = Str ''git'', entry_cwd = Str ''/a'', entry_args = [''status''],
          entry_kwargs = [], entry_rv = Str ''clean''\<rparr>,
         \<lparr>entry_command = Str ''git'', entry_cwd = Str ''/b'', entry_args = [''status''],
          entry_kwargs = [], entry_rv = Str ''clean''\<rparr>])))))"
proof -
  obtain c w1 where cm: "create_mock world0 ''git'' = (c, w1)"
    by (cases "create_mock world0 ''git''")
  obtain r1 w2 where n1: "MockCommand_new c w1 ''/a'' = (r1, w2)"
    by (cases "MockCommand_new c w1 ''/a''")
  obtain r2 w3 where n2: "MockCommand_new c w2 ''/b'' = (r2, w3)"
    by (cases "MockCommand_new c w2 ''/b''")
  obtain rv1 w4
    where g1: "MockCommand_get (set_data c w3 ''status'' (Literal ''clean'')) r1 [''status''] [] = (rv1, w4)"
    by (cases "MockCommand_get (set_data c w3 ''status'' (Literal ''clean'')) r1 [''status''] []")
  obtain rv2 w5 where g2: "MockCommand_get w4 r2 [''status''] [] = (rv2, w5)"
    by (cases "MockCommand_get w4 r2 [''status''] []")
  have wf1: "wf_mock w3 r1 c (Str ''git'') (Str ''/a'')"
    and wf2: "wf_mock w3 r2 c (Str ''git'') (Str ''/b'')"
    and ne: "r1 \<noteq> r2" and l: "get_log c w3 = []"
    using cm n1 n2 by (auto simp: mock_new_defs wf_mock_def get_log_def)
  show ?thesis
    using mock_state_shared_per_class [OF wf1 wf2 g1 g2] ne l
    by (simp add: cm n1 n2 g1 g2)
qed



subsection \<open>The review URL\<close>

lemma match_atoms_nth:
  "match_atoms as s = Some rest \<Longrightarrow> i < length as \<Longrightarrow> atom_matches (as ! i) (s ! i)"
proof (induction as s arbitrary: i rule: match_atoms.induct)
  case (3 a as c s)
  then show ?case by (cases i) (auto split: if_splits)
qed simp_all

lemma length_phab_re: "length phab_re = 42"
  by (simp add: phab_re_def)

lemma phab_re_head: "phab_re ! 0 = Lit CHR ''h''" "phab_re ! Suc 0 = Lit CHR ''t''" "phab_re ! 41 = Lit CHR ''D''"
  by (simp_all add: phab_re_def)

lemma phab_re_no_restart:
  assumes "0 < j" and "j < 41"
  shows "\<not> (atom_matches (phab_re ! j) CHR ''h'' \<and> atom_matches (phab_re ! Suc j) CHR ''t'')"
proof -
  let ?ps = "zip (tl phab_re) (tl (tl phab_re))"
  have all: "list_all (\<lambda>(a, b). \<not> (atom_matches a CHR ''h'' \<and> atom_matches b CHR ''t'')) ?ps"
    by (simp add: phab_re_def)
  obtain k where k: "j = Suc k" using assms(1) by (cases j) auto
  have "k < length ?ps" using assms(2) k by (simp add: length_phab_re)
  with all have "case ?ps ! k of (a, b) \<Rightarrow> \<not> (atom_matches a CHR ''h'' \<and> atom_matches b CHR ''t'')"
    by (simp add: list_all_length)
  moreover have "?ps ! k = (phab_re ! Suc k, phab_re ! Suc (Suc k))"
    using assms(2) k by (simp add: nth_tl length_phab_re)
  ultimately show ?thesis using k by simp
qed


lemma match_here_head:
  assumes "match_here t = Some m'"
  shows "2 \<le> length t \<and> t ! 0 = CHR ''h'' \<and> t ! 1 = CHR ''t''"
proof -
  from assms obtain r where r: "match_atoms phab_re t = Some r"
    by (auto simp: match_here_def split: option.splits)
  from match_atoms_drop [OF r] have "2 \<le> length t" by (simp add: length_phab_re)
  moreover from match_atoms_nth [OF r, of 0] have "t ! 0 = CHR ''h''"
    by (simp add: length_phab_re phab_re_head)
  moreover from match_atoms_nth [OF r, of "Suc 0"] have "t ! Suc 0 = CHR ''t''"
    by (simp add: length_phab_re phab_re_head)
  ultimately show ?thesis by simp
qed

lemma no_overlap:
  assumes "match_here s = Some m" and "0 < j" and "j < length m"
  shows "match_here (drop j s) = None"
proof (rule ccontr)
  assume "match_here (drop j s) \<noteq> None"
  then obtain m' where "match_here (drop j s) = Some m'" by auto
  from match_here_head [OF this]
  have len: "Suc j < length s" and h: "s ! j = CHR ''h''" and t: "s ! Suc j = CHR ''t''"
    by (auto simp: add.commute)
  from assms(1) obtain rest where r: "match_atoms phab_re s = Some rest"
    and m: "m = take (length phab_re + length (takeWhile is_digit rest)) s"
    by (auto simp: match_here_def Let_def split: option.splits if_splits)
  consider "j < 41" | "j = 41" | "42 \<le> j" by linarith
  then show False
  proof cases
    case 1
    from match_atoms_nth [OF r, of j] match_atoms_nth [OF r, of "Suc j"] 1 h t
    have "atom_matches (phab_re ! j) CHR ''h'' \<and> atom_matches (phab_re ! Suc j) CHR ''t''"
      by (simp add: length_phab_re)
    with phab_re_no_restart [OF assms(2) 1] show False by simp
  next
    case 2
    from match_atoms_nth [OF r, of 41] have "s ! 41 = CHR ''D''"
      by (simp add: length_phab_re phab_re_head)
    with h 2 show False by simp
  next
    case 3
    let ?ds = "takeWhile is_digit rest"
    from assms(3) m have "j < 42 + length ?ds" by (simp add: length_phab_re)
    with 3 have k: "j - 42 < length ?ds" by simp
    from match_atoms_drop [OF r] have "drop 42 s = rest" by (simp add: length_phab_re)
    then have "rest ! (j - 42) = drop 42 s ! (j - 42)" by simp
    also have "\<dots> = s ! (42 + (j - 42))"
      using 3 len by (intro nth_drop) simp
    finally have "s ! j = rest ! (j - 42)" using 3 by simp
    also have "\<dots> = ?ds ! (j - 42)" using k by (simp add: takeWhile_nth)
    finally have "s ! j \<in> set ?ds" using k by simp
    then have "is_digit (s ! j)" by (rule set_takeWhileD [THEN conjunct2])
    with h show False by (simp add: is_digit_def)
  qed
qed


lemma findall_none: "(\<forall>i. match_here (drop i s) = None) \<Longrightarrow> findall s = []"
proof (induction s rule: findall.induct)
  case (1 s)
  from 1(3) [rule_format, of 0] have n: "match_here s = None" by simp
  show ?case
  proof (cases s)
    case Nil
    with n show ?thesis by (subst findall.simps) simp
  next
    case (Cons c t)
    have "\<forall>i. match_here (drop i t) = None"
    proof
      fix i from 1(3) [rule_format, of "Suc i"] Cons show "match_here (drop i t) = None" by simp
    qed
    with 1(1) [OF n Cons] have "findall t = []" by simp
    with n Cons show ?thesis by (subst findall.simps) simp
  qed
qed

lemma findall_last:
  "match_here (drop i s) = Some m \<Longrightarrow> (\<forall>j>i. match_here (drop j s) = None) \<Longrightarrow>
   findall s \<noteq> [] \<and> last (findall s) = m"
proof (induction s arbitrary: i rule: findall.induct)
  case (1 s)
  show ?case
  proof (cases "match_here s")
    case None
    have "match_here [] = None" by (simp add: match_here_def phab_re_def)
    with "1.prems"(1) obtain c t where s: "s = c # t" by (cases s) auto
    from None "1.prems"(1) obtain k where i: "i = Suc k" by (cases i) auto
    have a: "match_here (drop k t) = Some m" using "1.prems"(1) s i by simp
    have b: "\<forall>j>k. match_here (drop j t) = None"
    proof (intro allI impI)
      fix j assume "k < j"
      with "1.prems"(2) [rule_format, of "Suc j"] s i show "match_here (drop j t) = None" by simp
    qed
    from "1.IH"(1) [OF None s a b] have "findall t \<noteq> [] \<and> last (findall t) = m" .
    moreover have "findall s = findall t" using None s by (subst findall.simps) simp
    ultimately show ?thesis by simp
  next
    case (Some m0)
    let ?t = "drop (length m0) s"
    have fs: "findall s = m0 # findall ?t" using Some by (subst findall.simps) simp
    from match_here_nonempty [OF Some] have pos: "0 < length m0" by simp
    show ?thesis
    proof (cases "i = 0")
      case True
      with "1.prems"(1) Some have mm: "m = m0" by simp
      have "\<forall>j. match_here (drop j ?t) = None"
      proof
        fix j
        from "1.prems"(2) [rule_format, of "j + length m0"] True pos
        show "match_here (drop j ?t) = None" by simp
      qed
      then have "findall ?t = []" by (rule findall_none)
      with fs mm show ?thesis by simp
    next
      case False
      have ge: "length m0 \<le> i"
      proof (rule ccontr)
        assume "\<not> length m0 \<le> i"
        with False no_overlap [OF Some, of i] "1.prems"(1) show False by simp
      qed
      have a: "match_here (drop (i - length m0) ?t) = Some m"
        using "1.prems"(1) ge by simp
      have b: "\<forall>j>i - length m0. match_here (drop j ?t) = None"
      proof (intro allI impI)
        fix j assume "i - length m0 < j"
        with "1.prems"(2) [rule_format, of "j + length m0"] ge
        show "match_here (drop j ?t) = None" by simp
      qed
      from "1.IH"(2) [OF Some a b] fs show ?thesis by simp
    qed
  qed
qed

lemma last_position:
  assumes "match_here (drop i0 s) \<noteq> None"
  shows "\<exists>i m. match_here (drop i s) = Some m \<and> (\<forall>j>i. match_here (drop j s) = None)"
proof -
  let ?P = "\<lambda>i. match_here (drop i s) \<noteq> None"
  have e: "match_here [] = None" by (simp add: match_here_def phab_re_def)
  have bound: "i \<le> length s" if "?P i" for i
    using that e by (cases "i \<le> length s") auto
  let ?g = "Greatest ?P"
  from assms have g: "?P ?g"
    by (rule GreatestI_nat [where b = "length s"]) (rule bound)
  then obtain m where m: "match_here (drop ?g s) = Some m" by auto
  have "\<forall>j>?g. match_here (drop j s) = None"
  proof (intro allI impI)
    fix j assume gj: "?g < j"
    show "match_here (drop j s) = None"
    proof (rule ccontr)
      assume "match_here (drop j s) \<noteq> None"
      then have "j \<le> ?g"
        by (rule Greatest_le_nat [where b = "length s"]) (rule bound)
      with gj show False by simp
    qed
  qed
  with m show ?thesis by blast
qed

text \<open>
  C7. \<^verbatim>\<open>find_url\<close> returns nothing exactly when the pattern matches at no position of
  the text; and when it matches somewhere, there is a last position at which it matches
  and \<^verbatim>\<open>find_url\<close> returns the text matched there. On a text with the D111 URL followed
  by the D222 URL it returns the D222 URL.
\<close>

theorem find_url_last_match:
  "(find_url data = None \<longleftrightarrow> (\<forall>i. match_here (drop i data) = None))
   \<and> (\<forall>i m. match_here (drop i data) = Some m \<and> (\<forall>j>i. match_here (drop j data) = None) \<longrightarrow>
         find_url data = Some m)
   \<and> ((\<exists>i. match_here (drop i data) \<noteq> None) \<longrightarrow>
        (\<exists>i m. match_here (drop i data) = Some m \<and> (\<forall>j>i. match_here (drop j data) = None)))"
proof (intro conjI)
  show last: "\<forall>i m. match_here (drop i data) = Some m \<and> (\<forall>j>i. match_here (drop j data) = None) \<longrightarrow>
         find_url data = Some m"
  proof (intro allI impI)
    fix i m
    assume "match_here (drop i data) = Some m \<and> (\<forall>j>i. match_here (drop j data) = None)"
    then have "match_here (drop i data) = Some m" and "\<forall>j>i. match_here (drop j data) = None"
      by simp_all
    then have "findall data \<noteq> [] \<and> last (findall data) = m"
      by (rule findall_last)
    then show "find_url data = Some m" by (simp add: find_url_def)
  qed
  show ex: "(\<exists>i. match_here (drop i data) \<noteq> None) \<longrightarrow>
        (\<exists>i m. match_here (drop i data) = Some m \<and> (\<forall>j>i. match_here (drop j data) = None))"
    using last_position [of _ data] by blast
  show "find_url data = None \<longleftrightarrow> (\<forall>i. match_here (drop i data) = None)"
  proof
    assume n: "find_url data = None"
    show "\<forall>i. match_here (drop i data) = None"
    proof (rule ccontr)
      assume "\<not> (\<forall>i. match_here (drop i data) = None)"
      with ex obtain i m where "match_here (drop i data) = Some m"
        "\<forall>j>i. match_here (drop j data) = None" by blast
      with last have "find_url data = Some m" by blast
      with n show False by simp
    qed
  next
    assume "\<forall>i. match_here (drop i data) = None"
    then have "findall data = []" by (rule findall_none)
    then show "find_url data = None" by (simp add: find_url_def)
  qed
qed


theorem find_url_last_match_witness:
  "find_url ''see https://phabricator.services.mozilla.com/D111 then https://phabricator.services.mozilla.com/D222'' =
     Some ''https://phabricator.services.mozilla.com/D222''
   \<and> find_url ''no review was created'' = None"
proof -
  let ?data = "''see https://phabricator.services.mozilla.com/D111 then https://phabricator.services.mozilla.com/D222''"
  let ?m = "''https://phabricator.services.mozilla.com/D222''"
  have a: "match_here (drop 55 ?data) = Some ?m"
    by (simp add: match_here_def phab_re_def is_digit_def)
  have b: "\<forall>j>55. match_here (drop j ?data) = None"
  proof (intro allI impI)
    fix j :: nat assume j: "55 < j"
    show "match_here (drop j ?data) = None"
    proof (cases "j < 100")
      case True
      with j have "match_here (drop (j - 55) (drop 55 ?data)) = None"
        by (intro no_overlap [OF a]) simp_all
      with j show ?thesis by (simp del: drop_Cons_numeral)
    next
      case False
      then have "drop j ?data = []" by simp
      then show ?thesis by (simp add: match_here_def phab_re_def)
    qed
  qed
  from find_url_last_match [of ?data] a b have "find_url ?data = Some ?m"
    by blast
  moreover have "find_url ''no review was created'' = None"
    by code_simp
  ultimately show ?thesis by simp
qed



subsection \<open>What the other operations leave alone\<close>

text \<open>
  Apart from the attribute reads shown above, nothing rebinds an attribute: a dynamic read
  writes only the entry of the stripped name, and \<^verbatim>\<open>Command.get\<close>, \<^verbatim>\<open>Mach.get\<close> and
  \<^verbatim>\<open>MockCommand.get\<close> leave every instance as it was when \<^verbatim>\<open>name\<close> and \<^verbatim>\<open>path\<close>
  (and \<^verbatim>\<open>wpt_cache\<close>) are present. \<^verbatim>\<open>find_url\<close> does not touch the state at all.
\<close>

lemma py_getattr_keeps:
  assumes "py_getattr w self X = (r, w')"
    and "k \<noteq> (if endswith X ''_'' then butlast X else X)"
  shows "dict (objs w' self) k = dict (objs w self) k"
  using assms
  by (auto simp add: py_getattr_def Command_getattr_def Let_def split: option.splits if_splits)

lemma report_objs:
  assumes "dict (objs w self) ''name'' = Some n" and "report w self e = (rv, w')"
  shows "objs w' = objs w"
  using assms by (cases e) (auto simp: read_attr_found)

lemma Command_get_objs:
  assumes "dict (objs w self) ''name'' = Some n" and "dict (objs w self) ''path'' = Some p"
    and "Command_get sys w self subcommand opts = (rv, w')"
  shows "objs w' = objs w"
proof -
  note rn = read_attr_found [OF assms(1)] and rp = read_attr_found [OF assms(2)]
  have rp3: "read_attr (log_info w m) self ''path'' = (p, log_info w m)" for m
    using assms(2) by (simp add: read_attr_found)
  show ?thesis
  proof (cases "subcommand = [] \<or> (\<exists>e. join_attrs p n = Inl e) \<or> (\<forall>d. p \<noteq> Str d)")
    case True
    then consider "subcommand = []" | e where "subcommand \<noteq> []" "join_attrs p n = Inl e"
      | exe where "subcommand \<noteq> []" "join_attrs p n = Inr exe" "\<forall>d. p \<noteq> Str d"
      by (cases "join_attrs p n") auto
    then show ?thesis
    proof cases
      case 1
      with assms(3) show ?thesis by (simp add: Command_get_def)
    next
      case 2
      with assms(3) show ?thesis by (simp add: Command_get_def rn rp)
    next
      case 3
      with assms(3) show ?thesis
        by (cases p) (auto simp add: Command_get_def rn rp rp3 Let_def)
    qed
  next
    case False
    then obtain exe d where ne: "subcommand \<noteq> []" and j: "join_attrs p n = Inr exe"
      and p: "p = Str d"
      by (cases "join_attrs p n") auto
    let ?w3 = "log_info w (running_message (exe # subcommand))"
    obtain r w5 where co: "check_output sys ?w3 (exe # subcommand) d opts = (r, w5)"
      by (cases "check_output sys ?w3 (exe # subcommand) d opts")
    from check_output_objs [OF co] have o5: "objs w5 = objs w" by simp
    show ?thesis
    proof (cases r)
      case (Inl e)
      with assms(3) ne j p co have "report w5 self e = (rv, w')"
        by (simp add: Command_get_def rn rp rp3 Let_def)
      from report_objs [OF _ this] assms(1) o5 show ?thesis by simp
    next
      case (Inr out)
      with assms(3) ne j p co o5 show ?thesis
        by (auto simp add: Command_get_def rn rp rp3 Let_def)
    qed
  qed
qed

lemma Mach_get_objs:
  assumes "dict (objs w self) ''name'' = Some n" and "dict (objs w self) ''path'' = Some p"
    and "dict (objs w self) ''wpt_cache'' = Some c"
    and "Mach_get sys w self subcommand opts = (rv, w')"
  shows "objs w' = objs w"
proof -
  obtain rv1 w1 where g: "Command_get sys w self subcommand opts = (rv1, w1)"
    by (cases "Command_get sys w self subcommand opts")
  from Command_get_objs [OF assms(1,2) g] have o: "objs w1 = objs w" .
  with assms(3) have c1: "dict (objs w1 self) ''wpt_cache'' = Some c" by simp
  from assms(4) g c1 o show ?thesis
    by (auto simp add: Mach_get_def cleanup_def read_attr_found Let_def
        split: pyval.splits if_splits sum.splits)
qed

lemma MockCommand_get_objs:
  assumes "dict (objs w self) ''name'' = Some n" and "dict (objs w self) ''path'' = Some p"
    and "MockCommand_get w self args kwargs = (rv, w')"
  shows "objs w' = objs w"
  using assms
  by (auto simp add: MockCommand_get_def py_getattr_def read_attr_found Let_def
        data_descriptors_def
      split: pyclass.splits option.splits list.splits sum.splits if_splits)


end
